theory Spec2Isabelle
  imports Main
begin

section \<open>Values exchanged with the gateway\<close>

text \<open>
  The module \<^verbatim>\<open>src/adminApi.js\<close> handles whatever \<^verbatim>\<open>r.json()\<close> yields, so a parsed
  body is an arbitrary JSON value.  An object lists its own properties, each key once, in
  the order in which the runtime enumerates them.  Numbers are taken to be integers.
\<close>

datatype json =
    JNull
  | JBool bool
  | JNum int
  | JStr string
  | JArr "json list"
  | JObj "(string \<times> json) list"

text \<open>
  A response of the requester collaborator: \<^verbatim>\<open>ok\<close>, \<^verbatim>\<open>status\<close>, \<^verbatim>\<open>statusText\<close> and the
  outcome of \<^verbatim>\<open>.json()\<close> (\<open>None\<close> when the body is not JSON, so that \<^verbatim>\<open>.json()\<close> rejects).
\<close>

record response =
  ok :: bool
  status :: nat
  statusText :: string
  json :: "json option"

text \<open>
  A rejection.  \<open>HttpError\<close> is the \<^verbatim>\<open>Error\<close> built at lines 111-112: its message and the
  response stored in \<^verbatim>\<open>error.response\<close>.  \<open>TypeError\<close> is what the JavaScript runtime
  throws on a property read of \<^verbatim>\<open>null\<close> or a call of a non-function, \<open>JsonError\<close> the
  rejection of \<^verbatim>\<open>.json()\<close>, \<open>RequestError\<close> a rejection of the requester itself.
\<close>

datatype error =
    HttpError string response
  | TypeError
  | JsonError
  | RequestError string

text \<open>The options built by \<^verbatim>\<open>prepareOptions\<close>; \<open>body\<close> holds the value given to
  \<^verbatim>\<open>JSON.stringify\<close>.\<close>

record options =
  http_method :: "string option"
  headers :: "(string \<times> string) list"
  body :: "json option"

text \<open>
  The network: the state \<open>world\<close> of everything behind the requester, and the list of the
  calls made to the requester so far, oldest first.
\<close>

datatype call = Get json | Request string options

record 'w net =
  world :: 'w
  calls :: "call list"

text \<open>
  What the module takes from outside: the two entry points of the requester, acting on the
  world, the version parser of \<^verbatim>\<open>utils.js\<close> with the truthiness of what it returns, and
  the two coercions of the JavaScript runtime that the module applies to response data:
  \<open>toString\<close> on a value that is not a string, and the comparison \<^verbatim>\<open>v < 100\<close> on a value
  that is not a number.  Either coercion may throw.
\<close>

record ('w, 'v) env =
  requester_get :: "'w \<Rightarrow> json \<Rightarrow> (error + response) \<times> 'w"
  requester_request :: "'w \<Rightarrow> string \<Rightarrow> options \<Rightarrow> (error + response) \<times> 'w"
  parseVersion :: "json option \<Rightarrow> error + 'v"
  truthy_version :: "'v \<Rightarrow> bool"
  toString :: "json \<Rightarrow> error + string"
  lessThan100 :: "json \<Rightarrow> error + bool"

section \<open>JavaScript operations used by the module\<close>

fun string_of_nat :: "nat \<Rightarrow> string" where
  "string_of_nat n =
     (if n < 10 then [''0123456789'' ! n]
      else string_of_nat (n div 10) @ [''0123456789'' ! (n mod 10)])"

declare string_of_nat.simps [simp del]

text \<open>The string a template literal or \<^verbatim>\<open>String.prototype.concat\<close> makes of a value.\<close>

definition js_string :: "('w, 'v) env \<Rightarrow> json \<Rightarrow> error + string" where
  "js_string env v = (case v of JStr s \<Rightarrow> Inr s | _ \<Rightarrow> toString env v)"

text \<open>
  \<^verbatim>\<open>json.hasOwnProperty(k)\<close> for \<open>k\<close> one of \<^verbatim>\<open>'data'\<close> and \<^verbatim>\<open>'next'\<close>.  On \<^verbatim>\<open>null\<close>
  the property read throws; an object that has an own property \<^verbatim>\<open>hasOwnProperty\<close> hides
  the method by a JSON value, which cannot be called; arrays and primitives own neither key.
\<close>

definition hasOwnProperty :: "json \<Rightarrow> string \<Rightarrow> error + bool" where
  "hasOwnProperty j k =
     (case j of
        JNull \<Rightarrow> Inl TypeError
      | JObj kvs \<Rightarrow>
          (if map_of kvs ''hasOwnProperty'' \<noteq> None then Inl TypeError
           else Inr (map_of kvs k \<noteq> None))
      | _ \<Rightarrow> Inr False)"

text \<open>
  A read \<^verbatim>\<open>v.k\<close> of a property that \<^verbatim>\<open>Object.prototype\<close>, \<^verbatim>\<open>Array.prototype\<close> and the
  wrappers of the primitives do not define (\<^verbatim>\<open>data\<close>, \<^verbatim>\<open>next\<close>, \<^verbatim>\<open>username\<close>, \<^verbatim>\<open>fields\<close>,
  \<^verbatim>\<open>version\<close>, \<^verbatim>\<open>enabled_plugins\<close>): \<open>None\<close> is \<^verbatim>\<open>undefined\<close>.
\<close>

definition get_prop :: "json \<Rightarrow> string \<Rightarrow> error + json option" where
  "get_prop v k =
     (case v of
        JNull \<Rightarrow> Inl TypeError
      | JObj kvs \<Rightarrow> Inr (map_of kvs k)
      | _ \<Rightarrow> Inr None)"

text \<open>
  Lines 123-129, with \<open>d\<close> the value of \<^verbatim>\<open>json.data\<close>: \<^verbatim>\<open>Object.keys(null)\<close> throws;
  only \<^verbatim>\<open>{}\<close> has no keys and the constructor \<^verbatim>\<open>Object\<close> (an empty array, an empty
  string, a number and a boolean have no keys either, by ECMAScript 2015, and another
  constructor).
\<close>

definition last_page :: "json \<Rightarrow> error + json" where
  "last_page d =
     (case d of
        JNull \<Rightarrow> Inl TypeError
      | JObj [] \<Rightarrow> Inr (JArr [])
      | _ \<Rightarrow> Inr d)"

text \<open>
  Line 132, \<^verbatim>\<open>json.data.length < 100\<close>: an array and a string have a length; an object
  has the own property of that name, if any; for every other value the length is
  \<^verbatim>\<open>undefined\<close> and the comparison is false.
\<close>

definition short_page :: "('w, 'v) env \<Rightarrow> json \<Rightarrow> error + bool" where
  "short_page env d =
     (case d of
        JNull \<Rightarrow> Inl TypeError
      | JArr xs \<Rightarrow> Inr (length xs < 100)
      | JStr s \<Rightarrow> Inr (length s < 100)
      | JObj kvs \<Rightarrow>
          (case map_of kvs ''length'' of
             None \<Rightarrow> Inr False
           | Some (JNum n) \<Rightarrow> Inr (n < 100)
           | Some v \<Rightarrow> lessThan100 env v)
      | _ \<Rightarrow> Inr False)"

text \<open>
  Line 137, \<^verbatim>\<open>json.data.concat(data)\<close>: \<^verbatim>\<open>Array.prototype.concat\<close> appends the elements
  of an array and any other value as one element; \<^verbatim>\<open>String.prototype.concat\<close> appends the
  string of the value; nothing else has a callable \<^verbatim>\<open>concat\<close>.
\<close>

definition concat_js :: "('w, 'v) env \<Rightarrow> json \<Rightarrow> json \<Rightarrow> error + json" where
  "concat_js env d v =
     (case d of
        JArr xs \<Rightarrow> Inr (JArr (xs @ (case v of JArr ys \<Rightarrow> ys | _ \<Rightarrow> [v])))
      | JStr s \<Rightarrow> (case js_string env v of Inl e \<Rightarrow> Inl e | Inr t \<Rightarrow> Inr (JStr (s @ t)))
      | _ \<Rightarrow> Inl TypeError)"

text \<open>The promise \<^verbatim>\<open>p.then(data => json.data.concat(data))\<close> of line 137, given what
  \<open>p\<close> settles to: a rejection of \<open>p\<close> is passed on.\<close>

definition then_concat :: "('w, 'v) env \<Rightarrow> json \<Rightarrow> error + json \<Rightarrow> error + json" where
  "then_concat env d res = (case res of Inl e \<Rightarrow> Inl e | Inr v \<Rightarrow> concat_js env d v)"

section \<open>The pagination aggregator\<close>

text \<open>Lines 110-115: the check of \<^verbatim>\<open>response.ok\<close> and the error it throws.\<close>

definition check_ok :: "('w, 'v) env \<Rightarrow> json \<Rightarrow> response \<Rightarrow> error + response" where
  "check_ok env uri r =
     (if \<not> ok r then
        (case js_string env uri of
           Inl e \<Rightarrow> Inl e
         | Inr u \<Rightarrow>
             Inl (HttpError (u @ '': '' @ string_of_nat (status r) @ '' '' @ statusText r) r))
      else Inr r)"

text \<open>
  Lines 121-137 up to the recursive call: what the last \<^verbatim>\<open>then\<close> does with the parsed
  body.  \<open>Settled\<close> is a returned value or a thrown error, \<open>Follow d n\<close> the call
  \<^verbatim>\<open>getPaginatedJson(json.next)\<close> with \<open>d\<close> the page in hand and \<open>n\<close> the value of
  \<^verbatim>\<open>json.next\<close>.
\<close>

datatype page = Settled "error + json" | Follow json json

definition paginate :: "('w, 'v) env \<Rightarrow> json \<Rightarrow> page" where
  "paginate env j =
     (case hasOwnProperty j ''data'' of
        Inl e \<Rightarrow> Settled (Inl e)
      | Inr False \<Rightarrow> Settled (Inr j)
      | Inr True \<Rightarrow>
          (case j of
             JObj kvs \<Rightarrow>
               (case (map_of kvs ''data'', map_of kvs ''next'') of
                  (Some d, None) \<Rightarrow> Settled (last_page d)
                | (Some d, Some n) \<Rightarrow>
                    (case short_page env d of
                       Inl e \<Rightarrow> Settled (Inl e)
                     | Inr True \<Rightarrow> Settled (Inr d)
                     | Inr False \<Rightarrow> Follow d n)
                | _ \<Rightarrow> Settled (Inr j))
           | _ \<Rightarrow> Settled (Inr j)))"

text \<open>
  \<^verbatim>\<open>getPaginatedJson\<close>, lines 107-139.  The promise it returns is awaited: the result is
  the settled promise (\<open>Inl\<close> a rejection, \<open>Inr\<close> the value) and the network after the last
  request; \<open>None\<close> is a promise that never settles, which a chain of \<^verbatim>\<open>next\<close> links that
  does not end produces.
\<close>

partial_function (option) getPaginatedJson ::
  "('w, 'v) env \<Rightarrow> json \<Rightarrow> 'w net \<Rightarrow> ((error + json) \<times> 'w net) option"
where
  "getPaginatedJson env uri s =
     (case requester_get env (world s) uri of
        (reply, w) \<Rightarrow>
          (case reply of
             Inl e \<Rightarrow> Some (Inl e, \<lparr>world = w, calls = calls s @ [Get uri]\<rparr>)
           | Inr response \<Rightarrow>
               (case check_ok env uri response of
                  Inl e \<Rightarrow> Some (Inl e, \<lparr>world = w, calls = calls s @ [Get uri]\<rparr>)
                | Inr r \<Rightarrow>
                    (case json r of
                       None \<Rightarrow> Some (Inl JsonError, \<lparr>world = w, calls = calls s @ [Get uri]\<rparr>)
                     | Some j \<Rightarrow>
                         (case paginate env j of
                            Settled res \<Rightarrow> Some (res, \<lparr>world = w, calls = calls s @ [Get uri]\<rparr>)
                          | Follow d n \<Rightarrow>
                              Option.bind
                                (getPaginatedJson env n \<lparr>world = w, calls = calls s @ [Get uri]\<rparr>)
                                (\<lambda>(res, s'). Some (then_concat env d res, s')))))))"

declare getPaginatedJson.simps [code]

section \<open>Module state and facade instances\<close>

text \<open>
  The three \<^verbatim>\<open>let\<close> variables of lines 6-8 and the network.  \<open>pluginSchemasCache\<close> is
  \<^verbatim>\<open>undefined\<close> or the \<^verbatim>\<open>Map\<close> built at line 64, kept as the list of entries given to its
  constructor (an entry is a plugin and its \<^verbatim>\<open>fields\<close>, \<open>None\<close> for \<^verbatim>\<open>undefined\<close>);
  \<open>resultsCache\<close> maps a URI to the promise stored for it, a promise being what it settles
  to.  The URIs are the URLs the router builds.
\<close>

record ('w, 'v) state =
  net :: "'w net"
  pluginSchemasCache :: "(json \<times> json option) list option"
  kongVersionCache :: "'v option"
  resultsCache :: "string \<rightharpoonup> (error + json)"

text \<open>An endpoint descriptor, \<^verbatim>\<open>{name, params}\<close>, and the second argument of
  \<^verbatim>\<open>requestEndpoint\<close>, \<^verbatim>\<open>{method, body}\<close>.\<close>

record endpoint =
  name :: string
  params :: "(string \<times> json) list"

record request =
  request_method :: "string option"
  request_body :: "json option"

text \<open>
  A facade instance is the closure that \<^verbatim>\<open>createApi\<close> returns: the values its methods
  capture (lines 10-21).  \<open>cache\<close> selects \<^verbatim>\<open>getPaginatedJsonCache\<close> at line 18.
\<close>

record config =
  router :: "endpoint \<Rightarrow> string"
  ignoreConsumers :: bool
  ignoreUndeclaredConsumers :: bool
  consumers :: "json list option"
  cache :: bool
  concurrency :: "nat option"

definition on_net ::
  "('w net \<Rightarrow> ('a \<times> 'w net) option) \<Rightarrow> ('w, 'v) state \<Rightarrow> ('a \<times> ('w, 'v) state) option"
where
  "on_net f s = (case f (net s) of None \<Rightarrow> None | Some (r, n) \<Rightarrow> Some (r, s\<lparr>net := n\<rparr>))"

text \<open>
  \<^verbatim>\<open>getPaginatedJsonCache\<close>, lines 91-100.  The source stores the promise when the call
  is made; as every call is awaited before the next one, the entry is given as what the
  promise settles to.
\<close>

definition getPaginatedJsonCache ::
  "('w, 'v) env \<Rightarrow> string \<Rightarrow> ('w, 'v) state \<Rightarrow> ((error + json) \<times> ('w, 'v) state) option"
where
  "getPaginatedJsonCache env uri s =
     (case resultsCache s uri of
        Some result \<Rightarrow> Some (result, s)
      | None \<Rightarrow>
          (case getPaginatedJson env (JStr uri) (net s) of
             None \<Rightarrow> None
           | Some (result, n) \<Rightarrow>
               Some (result, s\<lparr>net := n, resultsCache := (resultsCache s)(uri \<mapsto> result)\<rparr>)))"

text \<open>The \<^verbatim>\<open>getPaginatedJson\<close> that \<^verbatim>\<open>createApi\<close> receives (line 18).\<close>

definition paginated ::
  "('w, 'v) env \<Rightarrow> config \<Rightarrow> string \<Rightarrow> ('w, 'v) state \<Rightarrow> ((error + json) \<times> ('w, 'v) state) option"
where
  "paginated env cfg uri s =
     (if cache cfg then getPaginatedJsonCache env uri s
      else on_net (getPaginatedJson env (JStr uri)) s)"

subsection \<open>Consumers\<close>

text \<open>
  The key under which \<^verbatim>\<open>declaredConsumers[c.username]\<close> reads or writes: the username
  itself when it is a string, \<^verbatim>\<open>"undefined"\<close> when the consumer has none, the string of
  any other value.  Reading \<^verbatim>\<open>c.username\<close> of \<^verbatim>\<open>null\<close> throws.
\<close>

definition username_key :: "('w, 'v) env \<Rightarrow> json \<Rightarrow> error + string" where
  "username_key env c =
     (case get_prop c ''username'' of
        Inl e \<Rightarrow> Inl e
      | Inr None \<Rightarrow> Inr ''undefined''
      | Inr (Some u) \<Rightarrow> js_string env u)"

fun username_keys :: "('w, 'v) env \<Rightarrow> json list \<Rightarrow> error + string list" where
  "username_keys env [] = Inr []"
| "username_keys env (c # cs) =
     (case username_key env c of
        Inl e \<Rightarrow> Inl e
      | Inr k \<Rightarrow>
          (case username_keys env cs of
             Inl e \<Rightarrow> Inl e
           | Inr ks \<Rightarrow> Inr (k # ks)))"

text \<open>
  \<^verbatim>\<open>declaredConsumers\<close> is an object literal, so a read of a key it does not own goes to
  \<^verbatim>\<open>Object.prototype\<close>, whose properties are all truthy.
\<close>

definition object_prototype :: "string list" where
  "object_prototype =
     [''constructor'', ''hasOwnProperty'', ''isPrototypeOf'', ''propertyIsEnumerable'',
      ''toLocaleString'', ''toString'', ''valueOf'', ''__proto__'',
      ''__defineGetter__'', ''__defineSetter__'', ''__lookupGetter__'', ''__lookupSetter__'']"

text \<open>The callback of line 49, \<open>ks\<close> being the keys set to \<^verbatim>\<open>true\<close> at lines 46-47.\<close>

definition declared :: "('w, 'v) env \<Rightarrow> string list \<Rightarrow> json \<Rightarrow> error + bool" where
  "declared env ks c =
     (case username_key env c of
        Inl e \<Rightarrow> Inl e
      | Inr k \<Rightarrow> Inr (k \<in> set ks \<or> k \<in> set object_prototype))"

fun filter_js :: "(json \<Rightarrow> error + bool) \<Rightarrow> json list \<Rightarrow> error + json list" where
  "filter_js f [] = Inr []"
| "filter_js f (c # cs) =
     (case f c of
        Inl e \<Rightarrow> Inl e
      | Inr b \<Rightarrow>
          (case filter_js f cs of
             Inl e \<Rightarrow> Inl e
           | Inr ys \<Rightarrow> Inr (if b then c # ys else ys)))"

text \<open>Lines 46-49; \<^verbatim>\<open>all.filter\<close> is a function only when \<open>all\<close> is an array.\<close>

definition filter_declared :: "('w, 'v) env \<Rightarrow> json list \<Rightarrow> json \<Rightarrow> error + json" where
  "filter_declared env cs all =
     (case username_keys env cs of
        Inl e \<Rightarrow> Inl e
      | Inr ks \<Rightarrow>
          (case all of
             JArr xs \<Rightarrow>
               (case filter_js (declared env (''anonymous'' # ks)) xs of
                  Inl e \<Rightarrow> Inl e
                | Inr ys \<Rightarrow> Inr (JArr ys))
           | _ \<Rightarrow> Inl TypeError))"

text \<open>\<^verbatim>\<open>fetchConsumers\<close>, lines 36-54.\<close>

definition fetchConsumers ::
  "('w, 'v) env \<Rightarrow> config \<Rightarrow> ('w, 'v) state \<Rightarrow> ((error + json) \<times> ('w, 'v) state) option"
where
  "fetchConsumers env cfg s =
     (if ignoreConsumers cfg then Some (Inr (JArr []), s)
      else
        (case paginated env cfg (router cfg \<lparr>name = ''consumers'', params = []\<rparr>) s of
           None \<Rightarrow> None
         | Some (Inl e, s') \<Rightarrow> Some (Inl e, s')
         | Some (Inr all, s') \<Rightarrow>
             (case consumers cfg of
                Some cs \<Rightarrow>
                  if ignoreUndeclaredConsumers cfg then Some (filter_declared env cs all, s')
                  else Some (Inr all, s')
              | None \<Rightarrow> Some (Inr all, s'))))"

subsection \<open>Cached singletons\<close>

text \<open>
  \<^verbatim>\<open>getEnabledPluginNames\<close>, lines 83-89, on the value of \<^verbatim>\<open>json.enabled_plugins\<close>.
  \<^verbatim>\<open>Object.keys\<close> throws on \<^verbatim>\<open>undefined\<close> and \<^verbatim>\<open>null\<close>, gives the indices of a string
  and nothing for a number or a boolean.
\<close>

definition getEnabledPluginNames :: "json option \<Rightarrow> error + json list" where
  "getEnabledPluginNames enabledPlugins =
     (case enabledPlugins of
        None \<Rightarrow> Inl TypeError
      | Some JNull \<Rightarrow> Inl TypeError
      | Some (JArr xs) \<Rightarrow> Inr xs
      | Some (JObj kvs) \<Rightarrow> Inr (map (\<lambda>kv. JStr (fst kv)) kvs)
      | Some (JStr t) \<Rightarrow> Inr (map (\<lambda>i. JStr (string_of_nat i)) [0..<length t])
      | Some _ \<Rightarrow> Inr [])"

text \<open>
  \<^verbatim>\<open>getPluginScheme\<close>, lines 102-105; it calls the aggregator of the module, never the
  cached one.
\<close>

definition getPluginScheme ::
  "('w, 'v) env \<Rightarrow> config \<Rightarrow> json \<Rightarrow> 'w net \<Rightarrow> ((error + json \<times> json option) \<times> 'w net) option"
where
  "getPluginScheme env cfg plugin n =
     (case getPaginatedJson env
             (JStr (router cfg \<lparr>name = ''plugins-scheme'', params = [(''plugin'', plugin)]\<rparr>)) n of
        None \<Rightarrow> None
      | Some (Inl e, n') \<Rightarrow> Some (Inl e, n')
      | Some (Inr v, n') \<Rightarrow>
          (case get_prop v ''fields'' of
             Inl e \<Rightarrow> Some (Inl e, n')
           | Inr fs \<Rightarrow> Some (Inr (plugin, fs), n')))"

text \<open>
  \<^verbatim>\<open>Promise.map\<close> of line 63, taken one plugin after the other, from the left, up to the
  first rejection.
\<close>

fun getPluginSchemes ::
  "('w, 'v) env \<Rightarrow> config \<Rightarrow> json list \<Rightarrow> 'w net \<Rightarrow>
     ((error + (json \<times> json option) list) \<times> 'w net) option"
where
  "getPluginSchemes env cfg [] n = Some (Inr [], n)"
| "getPluginSchemes env cfg (plugin # plugins) n =
     (case getPluginScheme env cfg plugin n of
        None \<Rightarrow> None
      | Some (Inl e, n') \<Rightarrow> Some (Inl e, n')
      | Some (Inr x, n') \<Rightarrow>
          (case getPluginSchemes env cfg plugins n' of
             None \<Rightarrow> None
           | Some (Inl e, n'') \<Rightarrow> Some (Inl e, n'')
           | Some (Inr xs, n'') \<Rightarrow> Some (Inr (x # xs), n'')))"

text \<open>\<^verbatim>\<open>fetchPluginSchemas\<close>, lines 57-65.  A \<^verbatim>\<open>Map\<close> is truthy, also when empty.\<close>

definition fetchPluginSchemas ::
  "('w, 'v) env \<Rightarrow> config \<Rightarrow> ('w, 'v) state \<Rightarrow>
     ((error + (json \<times> json option) list) \<times> ('w, 'v) state) option"
where
  "fetchPluginSchemas env cfg s =
     (case pluginSchemasCache s of
        Some m \<Rightarrow> Some (Inr m, s)
      | None \<Rightarrow>
          (case paginated env cfg (router cfg \<lparr>name = ''plugins-enabled'', params = []\<rparr>) s of
             None \<Rightarrow> None
           | Some (Inl e, s') \<Rightarrow> Some (Inl e, s')
           | Some (Inr j, s') \<Rightarrow>
               (case get_prop j ''enabled_plugins'' of
                  Inl e \<Rightarrow> Some (Inl e, s')
                | Inr enabled \<Rightarrow>
                    (case getEnabledPluginNames enabled of
                       Inl e \<Rightarrow> Some (Inl e, s')
                     | Inr plugins \<Rightarrow>
                         (case getPluginSchemes env cfg plugins (net s') of
                            None \<Rightarrow> None
                          | Some (Inl e, n) \<Rightarrow> Some (Inl e, s'\<lparr>net := n\<rparr>)
                          | Some (Inr all, n) \<Rightarrow>
                              Some (Inr all, s'\<lparr>net := n, pluginSchemasCache := Some all\<rparr>))))))"

text \<open>\<^verbatim>\<open>fetchKongVersion\<close>, lines 66-74.\<close>

definition fetchKongVersion ::
  "('w, 'v) env \<Rightarrow> config \<Rightarrow> ('w, 'v) state \<Rightarrow> ((error + 'v) \<times> ('w, 'v) state) option"
where
  "fetchKongVersion env cfg s =
     (if (case kongVersionCache s of None \<Rightarrow> False | Some v \<Rightarrow> truthy_version env v)
      then Some (Inr (the (kongVersionCache s)), s)
      else
        (case paginated env cfg (router cfg \<lparr>name = ''root'', params = []\<rparr>) s of
           None \<Rightarrow> None
         | Some (Inl e, s') \<Rightarrow> Some (Inl e, s')
         | Some (Inr j, s') \<Rightarrow>
             (case get_prop j ''version'' of
                Inl e \<Rightarrow> Some (Inl e, s')
              | Inr version \<Rightarrow>
                  (case parseVersion env version of
                     Inl e \<Rightarrow> Some (Inl e, s')
                   | Inr v \<Rightarrow> Some (Inr v, s'\<lparr>kongVersionCache := Some v\<rparr>)))))"

subsection \<open>Requests to an endpoint\<close>

text \<open>Whether \<^verbatim>\<open>if (body)\<close> takes the branch.\<close>

definition truthy :: "json option \<Rightarrow> bool" where
  "truthy v =
     (case v of
        None \<Rightarrow> False
      | Some JNull \<Rightarrow> False
      | Some (JBool b) \<Rightarrow> b
      | Some (JNum n) \<Rightarrow> n \<noteq> 0
      | Some (JStr t) \<Rightarrow> t \<noteq> []
      | Some _ \<Rightarrow> True)"

text \<open>\<^verbatim>\<open>prepareOptions\<close>, lines 141-159.\<close>

definition prepareOptions :: "request \<Rightarrow> options" where
  "prepareOptions p =
     (if truthy (request_body p) then
        \<lparr>http_method = request_method p,
         headers = [(''Accept'', ''application/json''), (''Content-Type'', ''application/json'')],
         body = request_body p\<rparr>
      else
        \<lparr>http_method = request_method p,
         headers = [(''Accept'', ''application/json'')],
         body = None\<rparr>)"

text \<open>\<^verbatim>\<open>requestEndpoint\<close>, lines 75-78: the assignment to \<^verbatim>\<open>resultsCache\<close>, then the
  request.\<close>

definition requestEndpoint ::
  "('w, 'v) env \<Rightarrow> config \<Rightarrow> endpoint \<Rightarrow> request \<Rightarrow> ('w, 'v) state \<Rightarrow>
     (error + response) \<times> ('w, 'v) state"
where
  "requestEndpoint env cfg e p s =
     (case requester_request env (world (net s)) (router cfg e) (prepareOptions p) of
        (reply, w) \<Rightarrow>
          (reply,
           s\<lparr>resultsCache := Map.empty,
             net := \<lparr>world = w,
                     calls = calls (net s) @ [Request (router cfg e) (prepareOptions p)]\<rparr>\<rparr>))"

subsection \<open>The facade\<close>

text \<open>The methods of the object that \<^verbatim>\<open>createApi\<close> returns (lines 24-80) and what a call
  of one of them settles to.\<close>

datatype operation =
    FetchApis
  | FetchGlobalPlugins
  | FetchPlugins json
  | FetchConsumerCredentials json json
  | FetchConsumerAcls json
  | FetchUpstreams
  | FetchTargets json
  | FetchTargetsV11Active json
  | FetchCertificates
  | FetchConsumers
  | FetchPluginSchemas
  | FetchKongVersion
  | RequestEndpoint endpoint request

datatype 'v outcome =
    Rejected error
  | Json json
  | Schemas "(json \<times> json option) list"
  | Version 'v
  | Response response

definition settle :: "('a \<Rightarrow> 'v outcome) \<Rightarrow> ((error + 'a) \<times> 's) option \<Rightarrow> ('v outcome \<times> 's) option" where
  "settle f r =
     (case r of
        None \<Rightarrow> None
      | Some (Inl e, s) \<Rightarrow> Some (Rejected e, s)
      | Some (Inr x, s) \<Rightarrow> Some (f x, s))"

text \<open>The URI of the fetch methods that only call the aggregator (lines 26-34).\<close>

fun fetch_uri :: "config \<Rightarrow> operation \<Rightarrow> string option" where
  "fetch_uri cfg FetchApis = Some (router cfg \<lparr>name = ''apis'', params = []\<rparr>)"
| "fetch_uri cfg FetchGlobalPlugins = Some (router cfg \<lparr>name = ''plugins'', params = []\<rparr>)"
| "fetch_uri cfg (FetchPlugins apiId) =
     Some (router cfg \<lparr>name = ''api-plugins'', params = [(''apiId'', apiId)]\<rparr>)"
| "fetch_uri cfg (FetchConsumerCredentials consumerId plugin) =
     Some (router cfg \<lparr>name = ''consumer-credentials'',
                       params = [(''consumerId'', consumerId), (''plugin'', plugin)]\<rparr>)"
| "fetch_uri cfg (FetchConsumerAcls consumerId) =
     Some (router cfg \<lparr>name = ''consumer-acls'', params = [(''consumerId'', consumerId)]\<rparr>)"
| "fetch_uri cfg FetchUpstreams = Some (router cfg \<lparr>name = ''upstreams'', params = []\<rparr>)"
| "fetch_uri cfg (FetchTargets upstreamId) =
     Some (router cfg \<lparr>name = ''upstream-targets'', params = [(''upstreamId'', upstreamId)]\<rparr>)"
| "fetch_uri cfg (FetchTargetsV11Active upstreamId) =
     Some (router cfg \<lparr>name = ''upstream-targets-active'',
                       params = [(''upstreamId'', upstreamId)]\<rparr>)"
| "fetch_uri cfg FetchCertificates = Some (router cfg \<lparr>name = ''certificates'', params = []\<rparr>)"
| "fetch_uri cfg _ = None"

definition perform ::
  "('w, 'v) env \<Rightarrow> config \<Rightarrow> operation \<Rightarrow> ('w, 'v) state \<Rightarrow> ('v outcome \<times> ('w, 'v) state) option"
where
  "perform env cfg op s =
     (case fetch_uri cfg op of
        Some uri \<Rightarrow> settle Json (paginated env cfg uri s)
      | None \<Rightarrow>
          (case op of
             FetchConsumers \<Rightarrow> settle Json (fetchConsumers env cfg s)
           | FetchPluginSchemas \<Rightarrow> settle Schemas (fetchPluginSchemas env cfg s)
           | FetchKongVersion \<Rightarrow> settle Version (fetchKongVersion env cfg s)
           | RequestEndpoint e p \<Rightarrow> settle Response (Some (requestEndpoint env cfg e p s))
           | _ \<Rightarrow> None))"


section \<open>Describing a gateway\<close>

text \<open>
  The theorems speak of what the gateway serves in these terms.  \<open>serves env w uri\<close> is the
  parsed body of the successful response to a GET of \<open>uri\<close> in the world \<open>w\<close>, with the
  world after it.  \<open>envelope j\<close> is the pagination envelope in a body: the value of its
  \<^verbatim>\<open>data\<close> field, and of its \<^verbatim>\<open>next\<close> field if it has one, when the test of line 121
  finds a \<^verbatim>\<open>data\<close> field.  \<open>sent s w us\<close> is the network after GETs of \<open>us\<close>, in
  this order, that leave the world \<open>w\<close>.
\<close>

definition serves :: "('w, 'v) env \<Rightarrow> 'w \<Rightarrow> json \<Rightarrow> (json \<times> 'w) option" where
  "serves env w uri =
     (case requester_get env w uri of
        (Inr r, w') \<Rightarrow>
          (if ok r then (case json r of Some j \<Rightarrow> Some (j, w') | None \<Rightarrow> None) else None)
      | _ \<Rightarrow> None)"

definition envelope :: "json \<Rightarrow> (json \<times> json option) option" where
  "envelope j =
     (if hasOwnProperty j ''data'' = Inr True then
        (case (get_prop j ''data'', get_prop j ''next'') of
           (Inr (Some d), Inr n) \<Rightarrow> Some (d, n)
         | _ \<Rightarrow> None)
      else None)"

definition sent :: "'w net \<Rightarrow> 'w \<Rightarrow> json list \<Rightarrow> 'w net" where
  "sent s w us = \<lparr>world = w, calls = calls s @ map Get us\<rparr>"

text \<open>
  \<open>follow env w uri ps\<close> walks a chain of full pages: starting at \<open>uri\<close> in the world
  \<open>w\<close>, the gateway serves the lists \<open>ps\<close> one after the other, each of at least 100
  items and each with a \<^verbatim>\<open>next\<close> link to the following one.  The result is the URIs
  requested, the world after the last page, and the link of the last page.
\<close>

fun follow ::
  "('w, 'v) env \<Rightarrow> 'w \<Rightarrow> json \<Rightarrow> json list list \<Rightarrow> (json list \<times> 'w \<times> json) option"
where
  "follow env w uri [] = Some ([], w, uri)"
| "follow env w uri (xs # ps) =
     (case serves env w uri of
        Some (j, w') \<Rightarrow>
          (case envelope j of
             Some (JArr ys, Some n) \<Rightarrow>
               (if ys = xs \<and> 100 \<le> length xs then
                  (case follow env w' n ps of
                     Some (us, w'', m) \<Rightarrow> Some (uri # us, w'', m)
                   | None \<Rightarrow> None)
                else None)
           | _ \<Rightarrow> None)
      | None \<Rightarrow> None)"

text \<open>What the aggregator makes of the outcome of the fetch that comes after full pages
  \<open>ps\<close>.\<close>

fun pages_then :: "json list list \<Rightarrow> error + json \<Rightarrow> error + json" where
  "pages_then [] res = res"
| "pages_then (xs # ps) res =
     (case pages_then ps res of
        Inl e \<Rightarrow> Inl e
      | Inr v \<Rightarrow> Inr (JArr (xs @ (case v of JArr ys \<Rightarrow> ys | _ \<Rightarrow> [v]))))"


section \<open>An example gateway\<close>

text \<open>A gateway with a fixed table of responses, two facade instances and a few states of
  the module, for the concrete instances of the theorems below.\<close>

definition success :: "json \<Rightarrow> response" where
  "success j = \<lparr>ok = True, status = 200, statusText = ''OK'', json = Some j\<rparr>"

definition not_found :: response where
  "not_found = \<lparr>ok = False, status = 404, statusText = ''Not Found'', json = None\<rparr>"

definition consumer :: "string \<Rightarrow> json" where
  "consumer u = JObj [(''username'', JStr u)]"

definition kong_table :: "json \<Rightarrow> response" where
  "kong_table uri =
     (if uri = JStr ''/apis'' then
        success (JObj [(''data'', JArr (replicate 100 (JStr ''a''))), (''next'', JStr ''/apis2'')])
      else if uri = JStr ''/apis2'' then
        success (JObj [(''data'', JArr [JStr ''b''])])
      else if uri = JStr ''/plugins'' then
        success (JObj [(''data'', JArr [JStr ''c'']), (''next'', JStr ''/apis2'')])
      else if uri = JStr ''/routes'' then
        success (JObj [(''data'', JArr (replicate 100 (JStr ''a''))), (''next'', JStr ''/gone'')])
      else if uri = JStr ''/upstreams'' then
        success (JObj [(''data'', JObj [])])
      else if uri = JStr ''/certificates'' then
        success (JObj [(''data'', JNull)])
      else if uri = JStr ''/acls'' then
        success (JObj [(''data'', JObj [(''length'', JNum 5)]), (''next'', JStr ''/apis2'')])
      else if uri = JStr ''/targets'' then
        success (JObj [(''data'', JObj [(''a'', JNum 1)]), (''next'', JStr ''/gone'')])
      else if uri = JStr ''/active'' then
        success (JObj [(''data'', JObj []), (''next'', JStr ''/apis2'')])
      else if uri = JStr ''/consumers'' then
        success (JObj [(''data'',
          JArr [consumer ''alice'', consumer ''bob'', consumer ''anonymous'',
                consumer ''constructor''])])
      else if uri = JStr ''/enabled'' then
        success (JObj [(''enabled_plugins'', JArr [JStr ''acl''])])
      else if uri = JStr ''/schema'' then
        success (JObj [(''fields'', JObj [(''group'', JStr ''string'')])])
      else if uri = JStr ''/'' then
        success (JObj [(''version'', JStr ''0.10.0'')])
      else not_found)"

definition gateway :: "(json \<Rightarrow> response) \<Rightarrow> (unit, string) env" where
  "gateway table =
     \<lparr>requester_get = (\<lambda>w uri. (Inr (table uri), w)),
      requester_request = (\<lambda>w uri opts. (Inr (success JNull), w)),
      parseVersion = (\<lambda>v. case v of Some (JStr t) \<Rightarrow> Inr t | _ \<Rightarrow> Inl TypeError),
      truthy_version = (\<lambda>t. t \<noteq> []),
      toString = (\<lambda>v. Inl TypeError),
      lessThan100 = (\<lambda>v. Inl TypeError)\<rparr>"

definition down :: "(unit, string) env" where
  "down = gateway (\<lambda>uri. not_found)"

definition paths :: "endpoint \<Rightarrow> string" where
  "paths e =
     (if name e = ''root'' then ''/''
      else if name e = ''plugins-enabled'' then ''/enabled''
      else if name e = ''plugins-scheme'' then ''/schema''
      else if name e = ''upstream-targets'' then ''/targets''
      else if name e = ''upstream-targets-active'' then ''/active''
      else if name e = ''consumer-acls'' then ''/acls''
      else ''/'' @ name e)"

definition instance_of :: "bool \<Rightarrow> config" where
  "instance_of c =
     \<lparr>router = paths, ignoreConsumers = False, ignoreUndeclaredConsumers = True,
      consumers = Some [consumer ''alice''], cache = c, concurrency = None\<rparr>"


definition apis :: endpoint where
  "apis = \<lparr>name = ''apis'', params = []\<rparr>"

definition post_api :: request where
  "post_api = \<lparr>request_method = Some ''POST'', request_body = Some (JObj [(''name'', JStr ''x'')])\<rparr>"

definition acl_schema :: "(json \<times> json option) list" where
  "acl_schema = [(JStr ''acl'', Some (JObj [(''group'', JStr ''string'')]))]"

definition fresh :: "(unit, string) state" where
  "fresh =
     \<lparr>net = \<lparr>world = (), calls = []\<rparr>, pluginSchemasCache = None, kongVersionCache = None,
      resultsCache = Map.empty\<rparr>"

definition with_schemas :: "(unit, string) state" where
  "with_schemas =
     fresh\<lparr>net := sent (net fresh) () [JStr ''/enabled'', JStr ''/schema''],
           pluginSchemasCache := Some acl_schema\<rparr>"

definition with_page :: "(unit, string) state" where
  "with_page =
     fresh\<lparr>net := sent (net fresh) () [JStr ''/apis2''],
           resultsCache := [''/apis2'' \<mapsto> Inr (JArr [JStr ''b''])]\<rparr>"

definition with_rejection :: "(unit, string) state" where
  "with_rejection =
     fresh\<lparr>net := sent (net fresh) () [JStr ''/gone''],
           resultsCache := [''/gone'' \<mapsto> Inl (HttpError ''/gone: 404 Not Found'' not_found)]\<rparr>"

lemmas eval_page =
  serves_def envelope_def hasOwnProperty_def get_prop_def gateway_def kong_table_def success_def
  not_found_def sent_def fresh_def

lemmas eval_facade =
  paginated_def getPaginatedJsonCache_def on_net_def instance_of_def paths_def
  getPaginatedJson.simps check_ok_def paginate_def last_page_def short_page_def then_concat_def
  concat_js_def js_string_def string_of_nat.simps eval_page

lemmas eval_run =
  perform_def settle_def requestEndpoint_def prepareOptions_def truthy_def post_api_def apis_def
  down_def with_schemas_def with_page_def with_rejection_def acl_schema_def

section \<open>The aggregator on one response\<close>

lemma servesD:
  "serves env w uri = Some (j, w') \<Longrightarrow>
     \<exists>r. requester_get env w uri = (Inr r, w') \<and> ok r \<and> json r = Some j"
  by (auto simp: serves_def split: prod.splits sum.splits if_splits option.splits)

lemma envelopeD:
  "envelope j = Some (d, nx) \<Longrightarrow>
     \<exists>kvs. j = JObj kvs \<and> map_of kvs ''hasOwnProperty'' = None
          \<and> map_of kvs ''data'' = Some d \<and> map_of kvs ''next'' = nx"
  by (auto simp: envelope_def hasOwnProperty_def get_prop_def split: json.splits if_splits)

lemma paginate_envelope:
  "envelope j = Some (d, nx) \<Longrightarrow>
   paginate env j =
     (case nx of
        None \<Rightarrow> Settled (last_page d)
      | Some n \<Rightarrow>
          (case short_page env d of
             Inl e \<Rightarrow> Settled (Inl e)
           | Inr True \<Rightarrow> Settled (Inr d)
           | Inr False \<Rightarrow> Follow d n))"
  by (auto dest!: envelopeD simp: paginate_def hasOwnProperty_def split: option.splits)

lemma sent_sent [simp]: "sent (sent s w us) w' vs = sent s w' (us @ vs)"
  by (simp add: sent_def)

lemma world_sent [simp]: "world (sent s w us) = w"
  by (simp add: sent_def)

lemma getPaginatedJson_serves:
  assumes "serves env (world s) uri = Some (j, w)"
  shows "getPaginatedJson env uri s =
     (case paginate env j of
        Settled res \<Rightarrow> Some (res, sent s w [uri])
      | Follow d n \<Rightarrow>
          (case getPaginatedJson env n (sent s w [uri]) of
             None \<Rightarrow> None
           | Some (res, s') \<Rightarrow> Some (then_concat env d res, s')))"
  using servesD [OF assms]
  by (subst getPaginatedJson.simps)
     (auto simp: check_ok_def sent_def split: page.splits option.splits)

lemma getPaginatedJson_not_ok:
  assumes "requester_get env (world s) uri = (Inr r, w)" and "\<not> ok r"
    and "js_string env uri = Inr u"
  shows "getPaginatedJson env uri s =
     Some (Inl (HttpError (u @ '': '' @ string_of_nat (status r) @ '' '' @ statusText r) r),
           sent s w [uri])"
  using assms
  by (subst getPaginatedJson.simps) (simp add: check_ok_def sent_def)

text \<open>Every settled fetch has sent its first request, and only added to the log.\<close>

lemma getPaginatedJson_calls:
  assumes "getPaginatedJson env uri s = Some y"
  shows "\<exists>us. calls (snd y) = calls s @ Get uri # us"
proof (rule getPaginatedJson.raw_induct
    [where P = "\<lambda>env uri s y. \<exists>us. calls (snd y) = calls s @ Get uri # us", OF _ assms],
    goal_cases)
  case (1 f env uri s y)
  show ?case
  proof (cases "requester_get env (world s) uri")
    case (Pair reply w)
    let ?s1 = "\<lparr>world = w, calls = calls s @ [Get uri]\<rparr>"
    from 1(2) Pair have "snd y = ?s1 \<or> (\<exists>n z. f env n ?s1 = Some z \<and> snd y = snd z)"
      by (auto split: sum.splits option.splits page.splits
            simp: Option.bind_eq_Some_conv)
    then show ?thesis
    proof
      assume "snd y = ?s1"
      then show ?thesis by simp
    next
      assume "\<exists>n z. f env n ?s1 = Some z \<and> snd y = snd z"
      then obtain n z where z: "f env n ?s1 = Some z" "snd y = snd z"
        by blast
      from 1(1) [OF z(1)] z(2) show ?thesis by auto
    qed
  qed
qed

section \<open>The aggregator on a chain of pages\<close>

lemma getPaginatedJson_full_page:
  assumes "serves env (world s) uri = Some (j, w)" and "envelope j = Some (JArr xs, Some n)"
    and "100 \<le> length xs"
  shows "getPaginatedJson env uri s =
     (case getPaginatedJson env n (sent s w [uri]) of
        None \<Rightarrow> None
      | Some (res, s') \<Rightarrow> Some (pages_then [xs] res, s'))"
  using assms(3)
  by (simp add: getPaginatedJson_serves [OF assms(1)] paginate_envelope [OF assms(2)]
        short_page_def then_concat_def concat_js_def split: option.splits sum.splits)

lemma getPaginatedJson_follow:
  "follow env (world s) uri ps = Some (us, w, m) \<Longrightarrow>
   getPaginatedJson env uri s =
     (case getPaginatedJson env m (sent s w us) of
        None \<Rightarrow> None
      | Some (res, s') \<Rightarrow> Some (pages_then ps res, s'))"
proof (induction ps arbitrary: s uri us)
  case Nil
  then have "sent s w us = s" and "uri = m"
    by (simp_all add: sent_def)
  then show ?case by (simp split: option.splits)
next
  case (Cons xs ps)
  from Cons.prems obtain j w' n us' where
    page: "serves env (world s) uri = Some (j, w')" "envelope j = Some (JArr xs, Some n)"
      "100 \<le> length xs"
    and rest: "follow env w' n ps = Some (us', w, m)" and us: "us = uri # us'"
    by (auto split: option.splits json.splits if_splits)
  from rest have "follow env (world (sent s w' [uri])) n ps = Some (us', w, m)"
    by simp
  from Cons.IH [OF this] show ?case
    by (simp add: getPaginatedJson_full_page [OF page] us split: option.splits sum.splits)
qed

lemma pages_then_Inl [simp]: "pages_then ps (Inl e) = Inl e"
  by (induction ps) auto

lemma pages_then_JArr [simp]: "pages_then ps (Inr (JArr ys)) = Inr (JArr (concat ps @ ys))"
  by (induction ps) auto

section \<open>What the facade methods leave in place\<close>

lemma getPaginatedJsonCache_miss:
  "resultsCache s uri = None \<Longrightarrow>
   getPaginatedJsonCache env uri s =
     (case getPaginatedJson env (JStr uri) (net s) of
        None \<Rightarrow> None
      | Some (res, n) \<Rightarrow> Some (res, s\<lparr>net := n, resultsCache := (resultsCache s)(uri \<mapsto> res)\<rparr>))"
  by (simp add: getPaginatedJsonCache_def)







lemma requestEndpoint_frame:
  "requestEndpoint env cfg e p s = (r, s') \<Longrightarrow>
     pluginSchemasCache s' = pluginSchemasCache s \<and> kongVersionCache s' = kongVersionCache s \<and>
     resultsCache s' = Map.empty"
  by (auto simp: requestEndpoint_def split: prod.splits)









text \<open>
  The filter of lines 46-49 in terms of the keys: a fetched consumer stays when its key is
  \<^verbatim>\<open>anonymous\<close>, the key of a declared consumer, or the name of a property of
  \<^verbatim>\<open>Object.prototype\<close>.
\<close>

lemma filter_js_keys:
  "\<forall>c \<in> set xs. username_key env c = Inr (key c) \<Longrightarrow>
   filter_js (declared env ks) xs =
     Inr (filter (\<lambda>c. key c \<in> set ks \<or> key c \<in> set object_prototype) xs)"
  by (induction xs) (auto simp: declared_def)

lemma filter_declared_keys:
  assumes "username_keys env cs = Inr ks" and "\<forall>c \<in> set xs. username_key env c = Inr (key c)"
  shows "filter_declared env cs (JArr xs) =
     Inr (JArr (filter (\<lambda>c. key c \<in> set (''anonymous'' # ks) \<or> key c \<in> set object_prototype) xs))"
  by (simp add: filter_declared_def assms(1) filter_js_keys [OF assms(2)])

section \<open>Pagination\<close>






text \<open>
  Claim C3.  When the response to a GET of \<open>n\<close> is not \<^verbatim>\<open>ok\<close>, be it the first request of
  a fetch or one that follows full pages \<open>ps\<close>, the fetch rejects with the error whose
  message is the URI, a colon, the status code and the status text, and that carries the
  response; the outcome does not depend on the body, and the request for \<open>n\<close> is the
  last one sent.  \<open>u\<close> is the URI as a string, which a URI built by the router or given
  as a string in \<^verbatim>\<open>next\<close> is already.
\<close>

theorem getPaginatedJson_http_error:
  assumes "follow env (world s) uri ps = Some (us, w, n)" and "js_string env n = Inr u"
    and "requester_get env w n = (Inr r, w')" and "\<not> ok r"
  shows "getPaginatedJson env uri s =
     Some (Inl (HttpError (u @ '': '' @ string_of_nat (status r) @ '' '' @ statusText r) r),
           sent s w' (us @ [n]))"
proof -
  from assms(3) have "requester_get env (world (sent s w us)) n = (Inr r, w')"
    by simp
  from getPaginatedJson_not_ok [OF this assms(4,2)] show ?thesis
    by (simp add: getPaginatedJson_follow [OF assms(1)])
qed

text \<open>On the example gateway: \<^verbatim>\<open>/gone\<close> answers 404, at once and after a full page.\<close>

theorem getPaginatedJson_http_error_witness:
  "getPaginatedJson (gateway kong_table) (JStr ''/gone'') (net fresh) =
     Some (Inl (HttpError ''/gone: 404 Not Found'' not_found),
           sent (net fresh) () [JStr ''/gone'']) \<and>
   getPaginatedJson (gateway kong_table) (JStr ''/routes'') (net fresh) =
     Some (Inl (HttpError ''/gone: 404 Not Found'' not_found),
           sent (net fresh) () [JStr ''/routes'', JStr ''/gone''])"
proof -
  let ?G = "gateway kong_table"
  have a: "follow ?G (world (net fresh)) (JStr ''/gone'') [] = Some ([], (), JStr ''/gone'')"
    "js_string ?G (JStr ''/gone'') = Inr ''/gone''"
    "requester_get ?G () (JStr ''/gone'') = (Inr not_found, ())" "\<not> ok not_found"
    by (simp_all add: js_string_def eval_page)
  have b: "follow ?G (world (net fresh)) (JStr ''/routes'') [replicate 100 (JStr ''a'')] =
      Some ([JStr ''/routes''], (), JStr ''/gone'')"
    by (simp add: eval_page)
  have "string_of_nat (status not_found) = ''404''" "statusText not_found = ''Not Found''"
    by (simp_all add: not_found_def string_of_nat.simps)
  with getPaginatedJson_http_error [OF a] getPaginatedJson_http_error [OF b a(2-4)]
  show ?thesis by simp
qed




section \<open>Consumers\<close>

text \<open>
  Claim C7.  Through an instance with \<^verbatim>\<open>ignoreConsumers\<close> set, \<^verbatim>\<open>fetchConsumers\<close> returns
  the empty list and leaves the state as it was: no request is added to those sent.
\<close>

theorem fetchConsumers_ignoreConsumers:
  assumes "ignoreConsumers cfg"
  shows "fetchConsumers env cfg s = Some (Inr (JArr []), s) \<and>
     perform env cfg FetchConsumers s = Some (Json (JArr []), s)"
  using assms by (simp add: fetchConsumers_def perform_def settle_def)

theorem fetchConsumers_ignoreConsumers_witness:
  "fetchConsumers (gateway kong_table) ((instance_of True)\<lparr>ignoreConsumers := True\<rparr>) fresh =
     Some (Inr (JArr []), fresh)"
proof -
  have "ignoreConsumers ((instance_of True)\<lparr>ignoreConsumers := True\<rparr>)"
    by simp
  from fetchConsumers_ignoreConsumers [OF this, where env = "gateway kong_table" and s = fresh]
  show ?thesis by simp
qed

text \<open>
  Claim C8, on the code.  The instance declares the consumer \<^verbatim>\<open>alice\<close> and ignores
  undeclared consumers; the gateway lists \<^verbatim>\<open>alice\<close>, \<^verbatim>\<open>bob\<close>, \<^verbatim>\<open>anonymous\<close> and a consumer
  whose username is \<^verbatim>\<open>constructor\<close>.  \<^verbatim>\<open>bob\<close> is dropped, and the undeclared
  \<^verbatim>\<open>constructor\<close> is kept with \<^verbatim>\<open>alice\<close> and \<^verbatim>\<open>anonymous\<close>: the read
  \<^verbatim>\<open>declaredConsumers["constructor"]\<close> of line 49 finds the property of
  \<^verbatim>\<open>Object.prototype\<close>.
\<close>

theorem fetchConsumers_keeps_constructor:
  "fetchConsumers (gateway kong_table) (instance_of False) fresh =
     Some (Inr (JArr [consumer ''alice'', consumer ''anonymous'', consumer ''constructor'']),
           fresh\<lparr>net := sent (net fresh) () [JStr ''/consumers'']\<rparr>)"
  by (simp add: fetchConsumers_def filter_declared_def declared_def username_key_def
        object_prototype_def consumer_def eval_facade)

section \<open>Caches\<close>



text \<open>
  Claim C5.  After any call of \<^verbatim>\<open>requestEndpoint\<close> the results cache is empty.  A fetch
  through an instance with caching enabled, of any URI, is then the fetch of the aggregator
  itself, whose outcome becomes the only entry of the cache; when it settles, it has sent a
  request for that URI first.
\<close>

theorem requestEndpoint_resets_results:
  assumes "requestEndpoint env cfg e p s = (reply, s1)" and "cache cfg'"
  shows "resultsCache s1 = Map.empty \<and>
     paginated env' cfg' uri s1 =
       (case getPaginatedJson env' (JStr uri) (net s1) of
          None \<Rightarrow> None
        | Some (res, n) \<Rightarrow> Some (res, s1\<lparr>net := n, resultsCache := [uri \<mapsto> res]\<rparr>)) \<and>
     (\<forall>res s2. paginated env' cfg' uri s1 = Some (res, s2) \<longrightarrow>
        (\<exists>us. calls (net s2) = calls (net s1) @ Get (JStr uri) # us))"
proof -
  from requestEndpoint_frame [OF assms(1)] have empty: "resultsCache s1 = Map.empty"
    by simp
  then have miss: "resultsCache s1 uri = None"
    by simp
  have fetch: "paginated env' cfg' uri s1 =
       (case getPaginatedJson env' (JStr uri) (net s1) of
          None \<Rightarrow> None
        | Some (res, n) \<Rightarrow> Some (res, s1\<lparr>net := n, resultsCache := [uri \<mapsto> res]\<rparr>))"
    using assms(2)
    by (simp add: paginated_def getPaginatedJsonCache_miss [OF miss] empty split: option.splits)
  have "\<exists>us. calls (net s2) = calls (net s1) @ Get (JStr uri) # us"
    if "paginated env' cfg' uri s1 = Some (res, s2)" for res s2
  proof -
    from that fetch obtain n where
      "getPaginatedJson env' (JStr uri) (net s1) = Some (res, n)" and "net s2 = n"
      by (auto split: option.splits)
    with getPaginatedJson_calls [of env' "JStr uri" "net s1" "(res, n)"] show ?thesis
      by simp
  qed
  with empty fetch show ?thesis
    by blast
qed

text \<open>On the example: \<^verbatim>\<open>/apis2\<close> is cached and a fetch of it sends nothing; after a POST
  the same fetch sends a GET.\<close>

theorem requestEndpoint_resets_results_witness:
  "paginated down (instance_of True) ''/apis2'' with_page =
     Some (Inr (JArr [JStr ''b'']), with_page) \<and>
   calls (net (snd (the (paginated down (instance_of True) ''/apis2''
       (snd (requestEndpoint down (instance_of False) apis post_api with_page)))))) =
     calls (net with_page) @ [Request ''/apis'' (prepareOptions post_api), Get (JStr ''/apis2'')]"
proof -
  let ?s1 = "snd (requestEndpoint down (instance_of False) apis post_api with_page)"
  have a: "requestEndpoint down (instance_of False) apis post_api with_page =
      (fst (requestEndpoint down (instance_of False) apis post_api with_page), ?s1)"
    by simp
  have b: "cache (instance_of True)"
    by (simp add: instance_of_def)
  have hit: "paginated down (instance_of True) ''/apis2'' with_page =
      Some (Inr (JArr [JStr ''b'']), with_page)"
    by (simp add: paginated_def getPaginatedJsonCache_def instance_of_def with_page_def)
  have "getPaginatedJson down (JStr ''/apis2'') (net ?s1) =
      Some (Inl (HttpError ''/apis2: 404 Not Found'' not_found),
            \<lparr>world = (), calls = calls (net with_page) @
               [Request ''/apis'' (prepareOptions post_api), Get (JStr ''/apis2'')]\<rparr>)"
    by (simp add: eval_run eval_facade)
  with requestEndpoint_resets_results [OF a b, of down "''/apis2''"] hit
  show ?thesis by simp
qed






end
